theory Spec2Isabelle
  imports Complex_Main "HOL-Library.Char_ord" "HOL-Library.List_Lexorder" "HOL-Library.More_List"
    "HOL-Library.Sublist"
begin

section \<open>Data model\<close>

text \<open>
  The script \<^verbatim>\<open>dados.py\<close> keeps the tickets in a pandas DataFrame with the columns
  \<^verbatim>\<open>ID, setor, data, status, tempo_resolucao\<close>. The column \<^verbatim>\<open>data\<close> is converted with
  \<^verbatim>\<open>pd.to_datetime\<close> (line 31) and so holds timestamps, with a time of day; the date
  picker of line 46 returns calendar dates (\<^verbatim>\<open>datetime.date\<close>) without one.

  Timestamps are kept as their calendar fields, as Python's \<^verbatim>\<open>datetime\<close> does; they are
  compared field by field from the year down, which on calendar dates is the chronological
  order that pandas computes on its nanosecond counter. The finest unit kept is the
  microsecond, the precision of the timestamps that the script itself generates.

  Text is a list of bytes, in UTF-8; the lexicographic order of the bytes is the order
  of the code points that Python compares strings by. Means are exact quotients where
  pandas computes in 64-bit floating point.
\<close>

record date =
  year :: nat
  month :: nat
  day :: nat

record timestamp = date +
  hour :: nat
  minute :: nat
  second :: nat
  microsecond :: nat

record chamado =
  ID :: int
  setor :: string
  data :: timestamp
  status :: string
  tempo_resolucao :: int

datatype erro = IndexError | KeyError | ParseError | NaoModelado

text \<open>\<^verbatim>\<open>pd.to_datetime(d)\<close> of a calendar date: the timestamp at midnight of that day.\<close>

definition to_datetime :: "date \<Rightarrow> timestamp" where
  "to_datetime d =
     \<lparr>year = year d, month = month d, day = day d,
      hour = 0, minute = 0, second = 0, microsecond = 0\<rparr>"

text \<open>\<^verbatim>\<open>Timestamp.date()\<close>: the calendar date of a timestamp (what the date picker keeps of
  the values it is given).\<close>

definition date_of :: "timestamp \<Rightarrow> date" where
  "date_of t = \<lparr>year = year t, month = month t, day = day t\<rparr>"

definition ts_key :: "timestamp \<Rightarrow> nat list" where
  "ts_key t = [year t, month t, day t, hour t, minute t, second t, microsecond t]"

definition date_key :: "date \<Rightarrow> nat list" where
  "date_key d = [year d, month d, day d]"

text \<open>\<^verbatim>\<open>a <= b\<close> on timestamps and on dates.\<close>

definition ts_le :: "timestamp \<Rightarrow> timestamp \<Rightarrow> bool" where
  "ts_le a b \<longleftrightarrow> ts_key a \<le> ts_key b"

definition date_le :: "date \<Rightarrow> date \<Rightarrow> bool" where
  "date_le a b \<longleftrightarrow> date_key a \<le> date_key b"

section \<open>Filtering (lines 62 to 67)\<close>

text \<open>
  The boolean mask of lines 63 to 66 at one row: \<^verbatim>\<open>isin\<close> on the two selections and the
  two comparisons of the timestamp with the converted ends of the period.
\<close>

definition mascara ::
  "date \<Rightarrow> date \<Rightarrow> string list \<Rightarrow> string list \<Rightarrow> 'a chamado_scheme \<Rightarrow> bool" where
  "mascara d0 d1 setores_sel status_sel r \<longleftrightarrow>
     setor r \<in> set setores_sel \<and>
     status r \<in> set status_sel \<and>
     ts_le (to_datetime d0) (data r) \<and>
     ts_le (data r) (to_datetime d1)"

text \<open>
  \<^verbatim>\<open>df_filtrado = df[mask]\<close>. The date picker returns a tuple of the dates picked so far;
  \<^verbatim>\<open>datas_selecionadas[0]\<close> and \<^verbatim>\<open>datas_selecionadas[1]\<close> raise IndexError on a tuple that
  has fewer than two.
\<close>

definition df_filtrado ::
  "date list \<Rightarrow> string list \<Rightarrow> string list \<Rightarrow> 'a chamado_scheme list
     \<Rightarrow> erro + 'a chamado_scheme list" where
  "df_filtrado datas_selecionadas setores_sel status_sel df =
     (case datas_selecionadas of
        d0 # d1 # _ \<Rightarrow> Inr (filter (mascara d0 d1 setores_sel status_sel) df)
      | _ \<Rightarrow> Inl IndexError)"

section \<open>Default selection (lines 44 to 59)\<close>

text \<open>
  \<^verbatim>\<open>df["data"].min()\<close> and \<^verbatim>\<open>df["data"].max()\<close>; pandas gives NaT on an empty column,
  here \<open>None\<close>.
\<close>

definition ts_min :: "timestamp \<Rightarrow> timestamp \<Rightarrow> timestamp" where
  "ts_min a b = (if ts_le a b then a else b)"

definition ts_max :: "timestamp \<Rightarrow> timestamp \<Rightarrow> timestamp" where
  "ts_max a b = (if ts_le a b then b else a)"

fun data_min :: "'a chamado_scheme list \<Rightarrow> timestamp option" where
  "data_min [] = None"
| "data_min (r # rs) = Some (fold ts_min (map data rs) (data r))"

fun data_max :: "'a chamado_scheme list \<Rightarrow> timestamp option" where
  "data_max [] = None"
| "data_max (r # rs) = Some (fold ts_max (map data rs) (data r))"

text \<open>
  The value of the date picker before the user touches it: \<^verbatim>\<open>value=[data_min, data_max]\<close>,
  of which the picker keeps the calendar dates.
\<close>

definition datas_padrao :: "'a chamado_scheme list \<Rightarrow> date list" where
  "datas_padrao df =
     (case (data_min df, data_max df) of
        (Some a, Some b) \<Rightarrow> [date_of a, date_of b]
      | _ \<Rightarrow> [])"

text \<open>\<^verbatim>\<open>Series.unique()\<close>: the distinct values in the order of their first appearance.\<close>

definition unique :: "'k list \<Rightarrow> 'k list" where
  "unique xs = rev (remdups (rev xs))"

text \<open>\<^verbatim>\<open>sorted(df["setor"].unique())\<close> and \<^verbatim>\<open>sorted(df["status"].unique())\<close>, the options and
  the default of the two multiselects.\<close>

definition setores :: "'a chamado_scheme list \<Rightarrow> string list" where
  "setores df = sort (unique (map setor df))"

definition status_opcoes :: "'a chamado_scheme list \<Rightarrow> string list" where
  "status_opcoes df = sort (unique (map status df))"

section \<open>Metrics (lines 76 to 82)\<close>

record kpis =
  tempo_medio :: rat
  taxa_resolucao :: rat
  total_chamados :: nat
  setor_top :: string

text \<open>
  \<^verbatim>\<open>Series.mean()\<close> of an integer column and of a boolean column. pandas computes both in
  64-bit floating point; the model keeps the exact quotient.
\<close>

definition mean_int :: "int list \<Rightarrow> rat" where
  "mean_int xs = of_int (sum_list xs) / of_nat (length xs)"

definition mean_bool :: "bool list \<Rightarrow> rat" where
  "mean_bool bs = of_nat (length (filter (\<lambda>b. b) bs)) / of_nat (length bs)"

text \<open>
  \<^verbatim>\<open>Series.mode()\<close>: the values whose number of occurrences is the largest one, and pandas
  returns them sorted in ascending order. The order is that of the values of the column:
  of the code points for text, of the numbers for a column of numbers. The definition is
  for a column of any linearly ordered type; the frames of the model hold text in
  \<^verbatim>\<open>setor\<close>.
\<close>

definition maior_contagem :: "'k list \<Rightarrow> nat" where
  "maior_contagem xs = fold max (map (count_list xs) xs) 0"

definition mode :: "'k::linorder list \<Rightarrow> 'k list" where
  "mode xs = sort (filter (\<lambda>k. count_list xs k = maior_contagem xs) (unique xs))"

text \<open>\<^verbatim>\<open>s[0]\<close> on the result of \<^verbatim>\<open>mode()\<close>, whose labels are 0, 1, ...: KeyError when there
  is no row.\<close>

definition primeiro :: "'k list \<Rightarrow> erro + 'k" where
  "primeiro xs = (case xs of [] \<Rightarrow> Inl KeyError | x # _ \<Rightarrow> Inr x)"

definition metricas :: "'a chamado_scheme list \<Rightarrow> erro + kpis" where
  "metricas dff =
     (if dff \<noteq> [] then
        (case primeiro (mode (map setor dff)) of
           Inl e \<Rightarrow> Inl e
         | Inr s \<Rightarrow>
             Inr \<lparr>tempo_medio = mean_int (map tempo_resolucao dff),
                  taxa_resolucao = mean_bool (map (\<lambda>r. status r = ''Resolvido'') dff) * 100,
                  total_chamados = length dff,
                  setor_top = s\<rparr>)
      else Inr \<lparr>tempo_medio = 0, taxa_resolucao = 0, total_chamados = 0, setor_top = ''-''\<rparr>)"

section \<open>Aggregations (lines 101, 118 and 156)\<close>

text \<open>
  \<^verbatim>\<open>groupby(key)["ID"].count().reset_index()\<close>, from the key column: one row for each
  distinct key, in ascending order of the key, with the number of rows of the group
  (every row has an ID).
\<close>

definition groupby_count :: "string list \<Rightarrow> (string \<times> nat) list" where
  "groupby_count chaves = map (\<lambda>k. (k, count_list chaves k)) (sort (unique chaves))"

definition chamados_por_setor :: "'a chamado_scheme list \<Rightarrow> (string \<times> nat) list" where
  "chamados_por_setor dff = groupby_count (map setor dff)"

text \<open>
  \<^verbatim>\<open>value_counts().reset_index()\<close>: one row for each distinct value with its number of
  occurrences, the largest count first. pandas does not fix the order of values with the
  same count; here they stay in order of first appearance.
\<close>

definition value_counts :: "string list \<Rightarrow> (string \<times> nat) list" where
  "value_counts xs =
     sort_key (\<lambda>p. - int (snd p)) (map (\<lambda>k. (k, count_list xs k)) (unique xs))"

definition status_count :: "'a chamado_scheme list \<Rightarrow> (string \<times> nat) list" where
  "status_count dff = value_counts (map status dff)"

section \<open>Writing numbers and timestamps\<close>

text \<open>Decimal digits, as \<^verbatim>\<open>str\<close> writes an integer, and a number padded with zeros to a
  width, as the format \<^verbatim>\<open>%02d\<close> does.\<close>

definition digito :: "nat \<Rightarrow> char" where
  "digito n = char_of (48 + n)"

fun decimal :: "nat \<Rightarrow> string" where
  "decimal n = (if n < 10 then [digito n] else decimal (n div 10) @ [digito (n mod 10)])"

declare decimal.simps [simp del]

definition str_int :: "int \<Rightarrow> string" where
  "str_int i = (if i < 0 then CHR ''-'' # decimal (nat (- i)) else decimal (nat i))"

definition zfill :: "nat \<Rightarrow> nat \<Rightarrow> string" where
  "zfill w n = replicate (w - length (decimal n)) CHR ''0'' @ decimal n"

definition iso_data :: "'a date_scheme \<Rightarrow> string" where
  "iso_data t = decimal (year t) @ ''-'' @ zfill 2 (month t) @ ''-'' @ zfill 2 (day t)"

definition iso_hora :: "timestamp \<Rightarrow> string" where
  "iso_hora t = zfill 2 (hour t) @ '':'' @ zfill 2 (minute t) @ '':'' @ zfill 2 (second t)"

text \<open>\<^verbatim>\<open>dt.to_period("M").astype(str)\<close>: the month of a timestamp, written \<^verbatim>\<open>YYYY-MM\<close>.\<close>

definition to_period_M :: "'a date_scheme \<Rightarrow> string" where
  "to_period_M t = decimal (year t) @ ''-'' @ zfill 2 (month t)"

text \<open>
  A timestamp column is written by \<^verbatim>\<open>to_csv\<close> in one format for the whole column: the date
  alone when every value is at midnight, and otherwise date and time, with as many
  fractional digits (none, three or six) as the finest value of the column needs.
\<close>

datatype resolucao = Dia | Segundo | Milissegundo | Microssegundo

definition meia_noite :: "timestamp \<Rightarrow> bool" where
  "meia_noite t \<longleftrightarrow> hour t = 0 \<and> minute t = 0 \<and> second t = 0 \<and> microsecond t = 0"

definition resolucao_de :: "timestamp list \<Rightarrow> resolucao" where
  "resolucao_de ts =
     (if list_all meia_noite ts then Dia
      else if list_all (\<lambda>t. microsecond t = 0) ts then Segundo
      else if list_all (\<lambda>t. microsecond t mod 1000 = 0) ts then Milissegundo
      else Microssegundo)"

fun formata_ts :: "resolucao \<Rightarrow> timestamp \<Rightarrow> string" where
  "formata_ts Dia t = iso_data t"
| "formata_ts Segundo t = iso_data t @ '' '' @ iso_hora t"
| "formata_ts Milissegundo t =
     iso_data t @ '' '' @ iso_hora t @ ''.'' @ zfill 3 (microsecond t div 1000)"
| "formata_ts Microssegundo t =
     iso_data t @ '' '' @ iso_hora t @ ''.'' @ zfill 6 (microsecond t)"


section \<open>Frames\<close>

text \<open>
  A DataFrame of the script: the names of its columns in order, and its rows. A row has
  the five cells of the ticket schema and, in \<open>outras\<close>, the cells of the columns that are
  not of the schema, in the order of those columns, kept as text.
\<close>

record linha = chamado +
  outras :: "string list"

record quadro =
  colunas :: "string list"
  linhas :: "linha list"

definition esquema :: "string list" where
  "esquema = [''ID'', ''setor'', ''data'', ''status'', ''tempo_resolucao'']"

definition extras :: "string list \<Rightarrow> string list" where
  "extras cols = filter (\<lambda>c. c \<notin> set esquema) cols"

fun posicao :: "'k \<Rightarrow> 'k list \<Rightarrow> nat option" where
  "posicao k [] = None"
| "posicao k (x # xs) = (if x = k then Some 0 else map_option Suc (posicao k xs))"

text \<open>
  Line 155, \<^verbatim>\<open>df_filtrado["mes"] = df_filtrado["data"].dt.to_period("M").astype(str)\<close>: the
  assignment changes \<^verbatim>\<open>df_filtrado\<close> itself. A column \<^verbatim>\<open>mes\<close> that the frame already has
  is overwritten, otherwise the column is added after the last one.
\<close>

definition atribui_mes :: "quadro \<Rightarrow> quadro" where
  "atribui_mes q =
     (case posicao ''mes'' (extras (colunas q)) of
        None \<Rightarrow>
          \<lparr>colunas = colunas q @ [''mes''],
           linhas = map (\<lambda>r. r\<lparr>outras := outras r @ [to_period_M (data r)]\<rparr>) (linhas q)\<rparr>
      | Some i \<Rightarrow>
          \<lparr>colunas = colunas q,
           linhas = map (\<lambda>r. r\<lparr>outras := (outras r)[i := to_period_M (data r)]\<rparr>) (linhas q)\<rparr>)"

text \<open>\<^verbatim>\<open>df[c]\<close> for a column \<open>c\<close> outside the schema: KeyError when the frame has no such
  column. A row without the cell has a missing value there, written as the empty text.\<close>

definition coluna :: "string \<Rightarrow> quadro \<Rightarrow> erro + string list" where
  "coluna c q =
     (case posicao c (extras (colunas q)) of
        None \<Rightarrow> Inl KeyError
      | Some i \<Rightarrow> Inr (map (\<lambda>r. nth_default [] (outras r) i) (linhas q)))"


section \<open>Export (line 176)\<close>

text \<open>
  \<^verbatim>\<open>to_csv(index=False)\<close>: the header with the names of the columns, then one record for
  each row with the cells in the order of the columns, and no column for the index. The
  text is kept as its records of fields: the writer quotes a field that holds a comma, a
  quote or a line break, and the reader undoes that.
\<close>

definition celula :: "string list \<Rightarrow> resolucao \<Rightarrow> linha \<Rightarrow> string \<Rightarrow> string" where
  "celula cols res r c =
     (if c = ''ID'' then str_int (ID r)
      else if c = ''setor'' then setor r
      else if c = ''data'' then formata_ts res (data r)
      else if c = ''status'' then status r
      else if c = ''tempo_resolucao'' then str_int (tempo_resolucao r)
      else (case posicao c (extras cols) of
              None \<Rightarrow> []
            | Some i \<Rightarrow> nth_default [] (outras r) i))"

definition to_csv :: "quadro \<Rightarrow> string list list" where
  "to_csv q =
     colunas q #
     map (\<lambda>r. map (celula (colunas q) (resolucao_de (map data (linhas q))) r) (colunas q))
       (linhas q)"

section \<open>One rendering pass (lines 62 to 186)\<close>

text \<open>
  What one run of the script shows for a loaded frame and a selection: the four metrics,
  the data of the charts of lines 101, 118 and 156 (\<open>None\<close> where the script shows the
  warning instead), the text offered for download (\<open>None\<close> where there is nothing to
  export) and the frame given to \<^verbatim>\<open>st.dataframe\<close>. The charts draw what they are given;
  the box plot of line 139 is given the frame itself.
\<close>

record saida =
  metricas_gerais :: kpis
  graf1 :: "(string \<times> nat) list option"
  graf2 :: "(string \<times> nat) list option"
  graf4 :: "(string \<times> nat) list option"
  download :: "string list list option"
  detalhados :: quadro

definition painel :: "date list \<Rightarrow> string list \<Rightarrow> string list \<Rightarrow> quadro \<Rightarrow> erro + saida" where
  "painel datas_selecionadas setores_sel status_sel df =
     (case df_filtrado datas_selecionadas setores_sel status_sel (linhas df) of
        Inl e \<Rightarrow> Inl e
      | Inr sel \<Rightarrow>
     (case metricas sel of
        Inl e \<Rightarrow> Inl e
      | Inr k \<Rightarrow>
     (let dff = \<lparr>colunas = colunas df, linhas = sel\<rparr>;
          dff' = (if linhas dff \<noteq> [] then atribui_mes dff else dff)
      in
     (case (if linhas dff \<noteq> [] then map_sum id (Some \<circ> groupby_count) (coluna ''mes'' dff')
            else Inr None) of
        Inl e \<Rightarrow> Inl e
      | Inr mensal \<Rightarrow>
          Inr \<lparr>metricas_gerais = k,
               graf1 = (if linhas dff \<noteq> [] then Some (chamados_por_setor (linhas dff)) else None),
               graf2 = (if linhas dff \<noteq> [] then Some (status_count (linhas dff)) else None),
               graf4 = mensal,
               download = (if linhas dff' \<noteq> [] then Some (to_csv dff') else None),
               detalhados = dff'\<rparr>))))"

section \<open>Loading (lines 30 and 31)\<close>

text \<open>
  \<^verbatim>\<open>pd.read_csv\<close> followed by \<^verbatim>\<open>pd.to_datetime\<close> on the column \<^verbatim>\<open>data\<close>, on the records of
  fields of the file. The columns are found by their names in the header.

  \<^verbatim>\<open>read_csv\<close> is called without \<^verbatim>\<open>dtype\<close>, so pandas chooses the type of each column from
  all of its cells: a column whose cells all read as numbers, or all as booleans, holds
  numbers or booleans, with missing values for the tokens of \<open>na_values\<close>; any other column
  holds its cells as text. The frames of the model hold whole numbers in \<^verbatim>\<open>ID\<close> and
  \<^verbatim>\<open>tempo_resolucao\<close>, timestamps in \<^verbatim>\<open>data\<close> and text everywhere else, so the model
  describes the loading of these files only:
  \<^item> the names of the header are distinct and none is empty;
  \<^item> every record has as many fields as the header;
  \<^item> every cell of \<^verbatim>\<open>ID\<close> and \<^verbatim>\<open>tempo_resolucao\<close> is a whole number in decimal digits,
    within 64 bits;
  \<^item> every other column but \<^verbatim>\<open>data\<close> is one that pandas keeps as text: no cell is a token
    of a missing value, and some cell is plainly neither a number nor a boolean
    (\<open>texto_claro\<close>);
  \<^item> every cell of \<^verbatim>\<open>data\<close> is a date \<^verbatim>\<open>YYYY-MM-DD\<close>, alone or followed by \<^verbatim>\<open>HH:MM:SS\<close> and up
    to six fractional digits, in the years 1678 to 2261 that a pandas timestamp covers
    in full, and all cells are written in one format.
  On any other file the result is \<open>NaoModelado\<close>: pandas may well load it, with columns of
  other types or with values read in another way, and the model says nothing of it.
\<close>

definition valor_digito :: "char \<Rightarrow> nat option" where
  "valor_digito c =
     (if CHR ''0'' \<le> c \<and> c \<le> CHR ''9'' then Some (of_char c - 48) else None)"

fun nat_de_digitos :: "nat \<Rightarrow> string \<Rightarrow> nat option" where
  "nat_de_digitos acc [] = Some acc"
| "nat_de_digitos acc (c # cs) =
     (case valor_digito c of
        None \<Rightarrow> None
      | Some d \<Rightarrow> nat_de_digitos (10 * acc + d) cs)"

definition nat_de_texto :: "string \<Rightarrow> nat option" where
  "nat_de_texto s = (if s = [] then None else nat_de_digitos 0 s)"

definition int_de_texto :: "string \<Rightarrow> int option" where
  "int_de_texto s =
     (case s of
        [] \<Rightarrow> None
      | c # cs \<Rightarrow>
          (if c = CHR ''-'' then map_option (\<lambda>n. - int n) (nat_de_texto cs)
           else map_option int (nat_de_texto s)))"

text \<open>The text between the occurrences of a separator.\<close>

fun split :: "char \<Rightarrow> string \<Rightarrow> string list" where
  "split c [] = [[]]"
| "split c (x # xs) =
     (if x = c then [] # split c xs
      else (case split c xs of
              [] \<Rightarrow> [[x]]
            | p # ps \<Rightarrow> (x # p) # ps))"

text \<open>A field of a fixed number of digits.\<close>

definition campo :: "nat \<Rightarrow> string \<Rightarrow> nat option" where
  "campo w s = (if length s = w then nat_de_texto s else None)"

definition bissexto :: "nat \<Rightarrow> bool" where
  "bissexto y =
     (if y mod 400 = 0 then True else if y mod 100 = 0 then False else y mod 4 = 0)"

definition dias_no_mes :: "nat \<Rightarrow> nat \<Rightarrow> nat" where
  "dias_no_mes y m =
     (if m = 2 then (if bissexto y then 29 else 28)
      else if m = 4 \<or> m = 6 \<or> m = 9 \<or> m = 11 then 30
      else 31)"

definition data_valida :: "'a date_scheme \<Rightarrow> bool" where
  "data_valida d \<longleftrightarrow>
     1678 \<le> year d \<and> year d \<le> 2261 \<and> 1 \<le> month d \<and> month d \<le> 12 \<and>
     1 \<le> day d \<and> day d \<le> dias_no_mes (year d) (month d)"


definition data_de_texto :: "string \<Rightarrow> date option" where
  "data_de_texto s =
     (case split CHR ''-'' s of
        [y, m, d] \<Rightarrow>
          (case (campo 4 y, campo 2 m, campo 2 d) of
             (Some y', Some m', Some d') \<Rightarrow>
               (if data_valida \<lparr>year = y', month = m', day = d'\<rparr>
                then Some \<lparr>year = y', month = m', day = d'\<rparr> else None)
           | _ \<Rightarrow> None)
      | _ \<Rightarrow> None)"

text \<open>The fraction of a second, in microseconds: one to six digits after the point.\<close>

definition fracao_de_texto :: "string \<Rightarrow> nat option" where
  "fracao_de_texto f =
     (if 1 \<le> length f \<and> length f \<le> 6
      then map_option (\<lambda>n. n * 10 ^ (6 - length f)) (nat_de_texto f)
      else None)"

definition relogio_de_texto :: "string \<Rightarrow> (nat \<times> nat \<times> nat) option" where
  "relogio_de_texto s =
     (case split CHR '':'' s of
        [h, m, sg] \<Rightarrow>
          (case (campo 2 h, campo 2 m, campo 2 sg) of
             (Some h', Some m', Some s') \<Rightarrow>
               (if h' < 24 \<and> m' < 60 \<and> s' < 60 then Some (h', m', s') else None)
           | _ \<Rightarrow> None)
      | _ \<Rightarrow> None)"

definition hora_de_texto :: "string \<Rightarrow> (nat \<times> nat \<times> nat \<times> nat) option" where
  "hora_de_texto s =
     (case split CHR ''.'' s of
        [r] \<Rightarrow> map_option (\<lambda>(h, m, sg). (h, m, sg, 0)) (relogio_de_texto r)
      | [r, f] \<Rightarrow>
          (case (relogio_de_texto r, fracao_de_texto f) of
             (Some (h, m, sg), Some us) \<Rightarrow> Some (h, m, sg, us)
           | _ \<Rightarrow> None)
      | _ \<Rightarrow> None)"

text \<open>\<^verbatim>\<open>pd.to_datetime\<close> of a text: date and time are separated by a blank or by \<^verbatim>\<open>T\<close>.\<close>

definition to_datetime_texto :: "string \<Rightarrow> timestamp option" where
  "to_datetime_texto s =
     (case split CHR '' '' (map (\<lambda>c. if c = CHR ''T'' then CHR '' '' else c) s) of
        [d] \<Rightarrow> map_option to_datetime (data_de_texto d)
      | [d, h] \<Rightarrow>
          (case (data_de_texto d, hora_de_texto h) of
             (Some d', Some (h', m', s', us)) \<Rightarrow>
               Some \<lparr>year = year d', month = month d', day = day d',
                     hour = h', minute = m', second = s', microsecond = us\<rparr>
           | _ \<Rightarrow> None)
      | _ \<Rightarrow> None)"

text \<open>The cells that \<^verbatim>\<open>read_csv\<close> takes for a missing value.\<close>

definition na_values :: "string list" where
  "na_values =
     [[], ''#N/A'', ''#N/A N/A'', ''#NA'', ''-1.#IND'', ''-1.#QNAN'', ''-NaN'', ''-nan'',
      ''1.#IND'', ''1.#QNAN'', ''<NA>'', ''N/A'', ''NA'', ''NULL'', ''NaN'', ''None'', ''n/a'',
      ''nan'', ''null'']"

text \<open>
  A cell that pandas reads neither as a number, nor as a boolean, nor as a missing value.
  A number is written with blanks, a sign, digits, a point and an exponent, the sign
  first or right after the \<^verbatim>\<open>e\<close> of the exponent; the words read as numbers or booleans are
  \<^verbatim>\<open>inf\<close>, \<^verbatim>\<open>infinity\<close>, \<^verbatim>\<open>nan\<close>, \<^verbatim>\<open>true\<close> and \<^verbatim>\<open>false\<close> in some spellings. So a cell is
  plainly text when it starts with a letter (or a byte of a character beyond ASCII) and
  is none of these words in any spelling, and also when it has a minus sign right after
  a digit, as \<^verbatim>\<open>2024-01\<close> has. The test is on the safe side: it may miss a cell that pandas
  keeps as text, and never takes for text a cell that pandas reads as a value.
\<close>

definition eh_digito :: "char \<Rightarrow> bool" where
  "eh_digito c \<longleftrightarrow> CHR ''0'' \<le> c \<and> c \<le> CHR ''9''"

definition inicial_de_texto :: "char \<Rightarrow> bool" where
  "inicial_de_texto c \<longleftrightarrow>
     (CHR ''A'' \<le> c \<and> c \<le> CHR ''Z'') \<or> (CHR ''a'' \<le> c \<and> c \<le> CHR ''z'') \<or>
     (128::nat) \<le> of_char c"

definition minuscula :: "char \<Rightarrow> char" where
  "minuscula c =
     (if CHR ''A'' \<le> c \<and> c \<le> CHR ''Z'' then char_of (of_char c + (32::nat)) else c)"

definition palavras_lidas :: "string list" where
  "palavras_lidas = [''inf'', ''infinity'', ''nan'', ''true'', ''false'']"

fun sinal_apos_digito :: "string \<Rightarrow> bool" where
  "sinal_apos_digito (a # b # cs) =
     ((eh_digito a \<and> b = CHR ''-'') \<or> sinal_apos_digito (b # cs))"
| "sinal_apos_digito cs = False"

definition texto_claro :: "string \<Rightarrow> bool" where
  "texto_claro s \<longleftrightarrow>
     s \<notin> set na_values \<and>
     ((case s of
         [] \<Rightarrow> False
       | c # cs \<Rightarrow> inicial_de_texto c \<and> map minuscula s \<notin> set palavras_lidas) \<or>
      sinal_apos_digito s)"

text \<open>
  The cells of a column that \<^verbatim>\<open>read_csv\<close> keeps as text, each cell as it is written: none
  is a missing value and one of them is plainly text. (A column without any cell is
  kept as text too.) A column of which every cell reads as a number, as \<^verbatim>\<open>007\<close> and \<^verbatim>\<open>10\<close>,
  is not one: pandas makes it a column of the numbers 7 and 10.
\<close>

definition coluna_de_texto :: "string list \<Rightarrow> bool" where
  "coluna_de_texto cels \<longleftrightarrow>
     cels = [] \<or> (list_ex texto_claro cels \<and> list_all (\<lambda>s. s \<notin> set na_values) cels)"

text \<open>The value of a cell of a column of text.\<close>

definition texto_de_celula :: "string \<Rightarrow> string option" where
  "texto_de_celula s = (if s \<in> set na_values then None else Some s)"

text \<open>The value of a cell of a column of whole numbers of 64 bits.\<close>

definition int64 :: "int \<Rightarrow> bool" where
  "int64 i \<longleftrightarrow> - (2 ^ 63) \<le> i \<and> i < 2 ^ 63"

definition inteiro_de_celula :: "string \<Rightarrow> int option" where
  "inteiro_de_celula s =
     (case int_de_texto s of
        None \<Rightarrow> None
      | Some i \<Rightarrow> if int64 i then Some i else None)"

text \<open>The format of a timestamp as written: the cell with every digit replaced by a
  zero. \<^verbatim>\<open>to_datetime\<close> reads a column in the format of its first cell.\<close>

definition molde :: "string \<Rightarrow> string" where
  "molde s = map (\<lambda>c. if eh_digito c then CHR ''0'' else c) s"

definition um_so_molde :: "string list \<Rightarrow> bool" where
  "um_so_molde cels =
     (case cels of [] \<Rightarrow> True | c # cs \<Rightarrow> list_all (\<lambda>d. molde d = molde c) cs)"


text \<open>The cell of a record under a name of the header.\<close>

definition celula_lida :: "string \<Rightarrow> string list \<Rightarrow> string list \<Rightarrow> string" where
  "celula_lida c cab cels =
     (case posicao c cab of None \<Rightarrow> [] | Some k \<Rightarrow> nth_default [] cels k)"

text \<open>One record of the file, under the header \<open>cab\<close>, with the cells of \<^verbatim>\<open>setor\<close>, \<^verbatim>\<open>status\<close>
  and the columns outside the schema taken as text; whether these columns are columns
  of text is decided on the whole column, in \<open>carregar\<close>.\<close>

definition ler_linha :: "string list \<Rightarrow> string list \<Rightarrow> erro + linha" where
  "ler_linha cab cels =
     (if length cels = length cab then
        (case (posicao ''ID'' cab, posicao ''setor'' cab, posicao ''data'' cab,
               posicao ''status'' cab, posicao ''tempo_resolucao'' cab) of
           (Some i, Some j, Some k, Some l, Some m) \<Rightarrow>
             (case (inteiro_de_celula (cels ! i), texto_de_celula (cels ! j),
                    to_datetime_texto (cels ! k), texto_de_celula (cels ! l),
                    inteiro_de_celula (cels ! m)) of
                (Some a, Some b, Some c, Some d, Some e) \<Rightarrow>
                  Inr \<lparr>ID = a, setor = b, data = c, status = d, tempo_resolucao = e,
                       outras = map snd (filter (\<lambda>p. fst p \<notin> set esquema) (zip cab cels))\<rparr>
              | _ \<Rightarrow> Inl NaoModelado)
         | _ \<Rightarrow> Inl KeyError)
      else Inl NaoModelado)"

fun todas :: "(erro + 'r) list \<Rightarrow> erro + 'r list" where
  "todas [] = Inr []"
| "todas (x # xs) =
     (case x of
        Inl e \<Rightarrow> Inl e
      | Inr r \<Rightarrow> (case todas xs of Inl e \<Rightarrow> Inl e | Inr rs \<Rightarrow> Inr (r # rs)))"

text \<open>
  The whole file. An empty file stops \<^verbatim>\<open>read_csv\<close>; a file without one of the columns of
  the schema stops the script with KeyError where the column is first used. Then the
  records are read, and the columns are checked to be of the types of the model.
\<close>

definition colunas_de_texto :: "string list \<Rightarrow> linha list \<Rightarrow> bool" where
  "colunas_de_texto cab ls \<longleftrightarrow>
     coluna_de_texto (map setor ls) \<and> coluna_de_texto (map status ls) \<and>
     list_all (\<lambda>i. coluna_de_texto (map (\<lambda>r. nth_default [] (outras r) i) ls))
       [0..<length (extras cab)]"

definition carregar :: "string list list \<Rightarrow> erro + quadro" where
  "carregar arquivo =
     (case arquivo of
        [] \<Rightarrow> Inl ParseError
      | cab # regs \<Rightarrow>
          (if distinct cab \<and> list_all (\<lambda>c. c \<noteq> []) cab then
             (if list_all (\<lambda>c. c \<in> set cab) esquema then
                (case todas (map (ler_linha cab) regs) of
                   Inl e \<Rightarrow> Inl e
                 | Inr ls \<Rightarrow>
                     (if colunas_de_texto cab ls \<and>
                         um_so_molde (map (celula_lida ''data'' cab) regs)
                      then Inr \<lparr>colunas = cab, linhas = ls\<rparr>
                      else Inl NaoModelado))
              else Inl KeyError)
           else Inl NaoModelado))"


section \<open>Example tables\<close>

definition dia :: "nat \<Rightarrow> nat \<Rightarrow> nat \<Rightarrow> date" where
  "dia y m d = \<lparr>year = y, month = m, day = d\<rparr>"

definition novo_chamado :: "int \<Rightarrow> string \<Rightarrow> timestamp \<Rightarrow> string \<Rightarrow> int \<Rightarrow> linha" where
  "novo_chamado i s t st h =
     \<lparr>ID = i, setor = s, data = t, status = st, tempo_resolucao = h, outras = []\<rparr>"

text \<open>The table of the scenario of the specification, with the status labels as the
  specification writes them, and the same table with the label that line 78 compares with.\<close>

definition tabela_spec :: quadro where
  "tabela_spec =
     \<lparr>colunas = esquema,
      linhas =
        [novo_chamado 1 ''TI'' (to_datetime (dia 2024 1 5)) ''Resolved'' 10,
         novo_chamado 2 ''TI'' (to_datetime (dia 2024 2 10)) ''Open'' 5,
         novo_chamado 3 ''RH'' (to_datetime (dia 2024 1 20)) ''Resolved'' 20]\<rparr>"

definition tabela_cenario :: quadro where
  "tabela_cenario =
     \<lparr>colunas = esquema,
      linhas =
        [novo_chamado 1 ''TI'' (to_datetime (dia 2024 1 5)) ''Resolvido'' 10,
         novo_chamado 2 ''TI'' (to_datetime (dia 2024 2 10)) ''Open'' 5,
         novo_chamado 3 ''RH'' (to_datetime (dia 2024 1 20)) ''Resolvido'' 20]\<rparr>"

text \<open>Two sectors with one ticket each, and a ticket opened at ten in the morning.\<close>

definition tabela_empate :: "linha list" where
  "tabela_empate =
     [novo_chamado 1 ''TI'' (to_datetime (dia 2024 1 5)) ''Aberto'' 10,
      novo_chamado 2 ''RH'' (to_datetime (dia 2024 1 6)) ''Aberto'' 5]"

definition chamado_das_dez :: linha where
  "chamado_das_dez =
     novo_chamado 1 ''TI'' ((to_datetime (dia 2024 1 5))\<lparr>hour := 10\<rparr>) ''Aberto'' 10"



text \<open>A file with a sector whose label is written in digits.\<close>

definition arquivo_007 :: "string list list" where
  "arquivo_007 =
     [[''ID'', ''setor'', ''data'', ''status'', ''tempo_resolucao''],
      [''1'', ''007'', ''2024-01-05'', ''Aberto'', ''10''],
      [''2'', ''TI'', ''2024-01-06'', ''Aberto'', ''5'']]"

section \<open>Distinct values\<close>

lemma set_unique [simp]: "set (unique xs) = set xs"
  by (simp add: unique_def)

lemma distinct_unique [simp]: "distinct (unique xs)"
  by (simp add: unique_def)

section \<open>Filtering: properties\<close>

lemma df_filtrado_range:
  "df_filtrado [d0, d1] ss st df = Inr (filter (mascara d0 d1 ss st) df)"
  by (simp add: df_filtrado_def)

lemma df_filtrado_iff:
  assumes "df_filtrado [d0, d1] ss st df = Inr dff"
  shows "r \<in> set dff \<longleftrightarrow>
           r \<in> set df \<and> setor r \<in> set ss \<and> status r \<in> set st \<and>
           ts_le (to_datetime d0) (data r) \<and> ts_le (data r) (to_datetime d1)"
  using assms by (auto simp: df_filtrado_def mascara_def)

lemma df_filtrado_sublist:
  assumes "df_filtrado ds ss st df = Inr dff"
  shows "subseq dff df" and "set (map ID dff) \<subseteq> set (map ID df)"
  using assms by (auto simp: df_filtrado_def subseq_filter_left split: list.splits)

lemma inicio_por_dia: "ts_le (to_datetime d0) t \<longleftrightarrow> date_le d0 (date_of t)"
  by (auto simp: ts_le_def date_le_def ts_key_def date_key_def to_datetime_def date_of_def)

lemma fim_por_dia:
  "ts_le t (to_datetime d1) \<longleftrightarrow>
     date_le (date_of t) d1 \<and> (date_of t = d1 \<longrightarrow> meia_noite t)"
  by (cases d1) (auto simp: ts_le_def date_le_def ts_key_def date_key_def to_datetime_def date_of_def
      meia_noite_def)

text \<open>
  C1. The claim asks that a row whose sector and status are selected and whose day lies
  between the first and the last day of the period, both included, is in the subset. The
  last day is compared at its midnight (line 66), so a ticket opened later on that day is
  left out, although its day is the last day of the period.
\<close>

theorem C1_last_day_row_dropped:
  "df_filtrado [dia 2024 1 5, dia 2024 1 5] [''TI''] [''Aberto''] [chamado_das_dez] = Inr [] \<and>
   setor chamado_das_dez \<in> set [''TI''] \<and>
   status chamado_das_dez \<in> set [''Aberto''] \<and>
   date_le (dia 2024 1 5) (date_of (data chamado_das_dez)) \<and>
   date_le (date_of (data chamado_das_dez)) (dia 2024 1 5)"
  by code_simp

text \<open>
  C8. Filtering is idempotent: filtering the subset again with the same selection gives
  the same rows in the same order.
\<close>

theorem C8_filter_idempotent:
  "\<exists>xs. df_filtrado [d0, d1] ss st df = Inr xs \<and> df_filtrado [d0, d1] ss st xs = Inr xs"
  by (simp add: df_filtrado_def)

section \<open>Default selection: properties\<close>

lemma ts_le_refl: "ts_le a a"
  by (simp add: ts_le_def)

lemma ts_le_trans: "ts_le a b \<Longrightarrow> ts_le b c \<Longrightarrow> ts_le a c"
  unfolding ts_le_def by (rule order_trans)

lemma ts_le_total: "ts_le a b \<or> ts_le b a"
  unfolding ts_le_def by (rule linear)

lemma fold_ts_min_le: "ts_le (fold ts_min ts a) a"
proof (induction ts arbitrary: a)
  case Nil show ?case by (simp add: ts_le_refl)
next
  case (Cons t ts)
  have "ts_le (ts_min t a) a"
    using ts_le_total [of t a] by (auto simp: ts_min_def ts_le_refl)
  with Cons [of "ts_min t a"] show ?case
    by (auto intro: ts_le_trans)
qed

lemma fold_ts_min_le_mem: "t \<in> set ts \<Longrightarrow> ts_le (fold ts_min ts a) t"
proof (induction ts arbitrary: a)
  case Nil then show ?case by simp
next
  case (Cons u us)
  show ?case
  proof (cases "t = u")
    case True
    have "ts_le (ts_min u a) u"
      using ts_le_total [of u a] by (auto simp: ts_min_def ts_le_refl)
    with fold_ts_min_le [of us "ts_min u a"] show ?thesis
      using True by (auto intro: ts_le_trans)
  next
    case False
    with Cons show ?thesis by simp
  qed
qed

lemma fold_ts_max_ge: "ts_le a (fold ts_max ts a)"
proof (induction ts arbitrary: a)
  case Nil show ?case by (simp add: ts_le_refl)
next
  case (Cons t ts)
  have "ts_le a (ts_max t a)"
    using ts_le_total [of t a] by (auto simp: ts_max_def ts_le_refl)
  with Cons [of "ts_max t a"] show ?case
    by (auto intro: ts_le_trans)
qed

lemma fold_ts_max_ge_mem: "t \<in> set ts \<Longrightarrow> ts_le t (fold ts_max ts a)"
proof (induction ts arbitrary: a)
  case Nil then show ?case by simp
next
  case (Cons u us)
  show ?case
  proof (cases "t = u")
    case True
    have "ts_le u (ts_max u a)"
      using ts_le_total [of u a] by (auto simp: ts_max_def ts_le_refl)
    with fold_ts_max_ge [of "ts_max u a" us] show ?thesis
      using True by (auto intro: ts_le_trans)
  next
    case False
    with Cons show ?thesis by simp
  qed
qed

lemma fold_ts_max_mem: "fold ts_max ts a \<in> set (a # ts)"
  by (induction ts arbitrary: a) (auto simp: ts_max_def)

lemma to_datetime_date_of: "meia_noite t \<Longrightarrow> to_datetime (date_of t) = t"
  by (cases t) (simp add: meia_noite_def to_datetime_def date_of_def)

lemma padrao_seleciona_tudo:
  assumes "df \<noteq> []" and "list_all (\<lambda>r. meia_noite (data r)) df"
  shows "df_filtrado (datas_padrao df) (setores df) (status_opcoes df) df = Inr df"
proof -
  from assms(1) obtain r rs where df: "df = r # rs" by (cases df) auto
  let ?lo = "fold ts_min (map data rs) (data r)"
  let ?hi = "fold ts_max (map data rs) (data r)"
  have padrao: "datas_padrao df = [date_of ?lo, date_of ?hi]"
    by (simp add: datas_padrao_def df)
  have "?hi \<in> set (map data df)"
    using fold_ts_max_mem [of "map data rs" "data r"] by (simp add: df)
  with assms(2) have "meia_noite ?hi"
    by (auto simp: list_all_iff)
  then have hi: "to_datetime (date_of ?hi) = ?hi" by (rule to_datetime_date_of)
  have keep: "mascara (date_of ?lo) (date_of ?hi) (setores df) (status_opcoes df) x"
    if x: "x \<in> set df" for x
  proof -
    have lo_le: "ts_le ?lo (data x)"
      using x fold_ts_min_le [of "map data rs" "data r"]
        fold_ts_min_le_mem [of "data x" "map data rs" "data r"]
      by (auto simp: df)
    have "ts_le (to_datetime (date_of ?lo)) ?lo"
      by (simp add: inicio_por_dia date_le_def)
    with lo_le have a: "ts_le (to_datetime (date_of ?lo)) (data x)"
      by (rule ts_le_trans [rotated])
    have b: "ts_le (data x) ?hi"
      using x fold_ts_max_ge [of "data r" "map data rs"]
        fold_ts_max_ge_mem [of "data x" "map data rs" "data r"]
      by (auto simp: df)
    from a b x show ?thesis
      by (simp add: mascara_def hi setores_def status_opcoes_def)
  qed
  then have "filter (mascara (date_of ?lo) (date_of ?hi) (setores df) (status_opcoes df)) df = df"
    by (simp add: filter_id_conv)
  then show ?thesis
    by (simp add: padrao df_filtrado_def)
qed

text \<open>
  C10. With the selection the widgets start with, the last day of the period is the day of
  the newest ticket, taken at midnight: a table whose newest ticket was opened at ten in
  the morning loses it, here its only row.
\<close>

theorem C10_default_drops_newest:
  "datas_padrao [chamado_das_dez] = [dia 2024 1 5, dia 2024 1 5] \<and>
   setores [chamado_das_dez] = [''TI''] \<and>
   status_opcoes [chamado_das_dez] = [''Aberto''] \<and>
   df_filtrado (datas_padrao [chamado_das_dez]) (setores [chamado_das_dez])
     (status_opcoes [chamado_das_dez]) [chamado_das_dez] = Inr []"
  by code_simp

section \<open>Metrics: properties\<close>

lemma metricas_vazio:
  "metricas [] = Inr \<lparr>tempo_medio = 0, taxa_resolucao = 0, total_chamados = 0, setor_top = ''-''\<rparr>"
  by (simp add: metricas_def)

text \<open>
  C3. When the filtered subset is empty the pass does not raise, and the four metrics are
  0, 0, 0 and the placeholder \<^verbatim>\<open>-\<close>.
\<close>

theorem C3_empty_subset_defaults:
  assumes "df_filtrado ds ss st (linhas df) = Inr []"
  shows "\<exists>out. painel ds ss st df = Inr out \<and>
           metricas_gerais out =
             \<lparr>tempo_medio = 0, taxa_resolucao = 0, total_chamados = 0, setor_top = ''-''\<rparr>"
  using assms by (simp add: painel_def metricas_vazio)

theorem C3_empty_subset_defaults_witness:
  "df_filtrado [dia 2024 1 1, dia 2024 12 31] [] [''Open'', ''Resolvido''] (linhas tabela_cenario) = Inr [] \<and>
   (\<exists>out. painel [dia 2024 1 1, dia 2024 12 31] [] [''Open'', ''Resolvido''] tabela_cenario = Inr out \<and>
           metricas_gerais out =
             \<lparr>tempo_medio = 0, taxa_resolucao = 0, total_chamados = 0, setor_top = ''-''\<rparr>)"
proof -
  have h: "df_filtrado [dia 2024 1 1, dia 2024 12 31] [] [''Open'', ''Resolvido''] (linhas tabela_cenario) = Inr []"
    by (simp add: df_filtrado_def mascara_def)
  show ?thesis
    using h C3_empty_subset_defaults [OF h] by simp
qed

lemma count_list_pos: "x \<in> set xs \<Longrightarrow> 0 < count_list xs x"
  by (induction xs) auto

lemma count_list_pos_mem: "0 < count_list xs x \<Longrightarrow> x \<in> set xs"
  by (induction xs) (auto split: if_splits)

lemma fold_max_ge: "(a::nat) \<le> fold max ys a"
  by (induction ys arbitrary: a) (auto intro: order_trans [OF max.cobounded2])

lemma fold_max_mem_ge: "y \<in> set ys \<Longrightarrow> (y::nat) \<le> fold max ys a"
proof (induction ys arbitrary: a)
  case Nil then show ?case by simp
next
  case (Cons z zs)
  show ?case
  proof (cases "y = z")
    case True
    have "z \<le> max z a" by simp
    also have "\<dots> \<le> fold max zs (max z a)" by (rule fold_max_ge)
    finally show ?thesis using True by simp
  next
    case False
    with Cons show ?thesis by simp
  qed
qed

lemma fold_max_attained: "fold max ys (a::nat) = a \<or> fold max ys a \<in> set ys"
proof (induction ys arbitrary: a)
  case Nil then show ?case by simp
next
  case (Cons z zs)
  from Cons [of "max z a"] show ?case
    by (auto simp: max_def split: if_splits)
qed

lemma maior_contagem_ge: "count_list xs k \<le> maior_contagem xs"
proof (cases "k \<in> set xs")
  case True
  then show ?thesis
    unfolding maior_contagem_def by (intro fold_max_mem_ge) simp
next
  case False
  then show ?thesis by (simp add: count_list_0_iff)
qed

lemma maior_contagem_attained:
  assumes "xs \<noteq> []"
  shows "\<exists>k \<in> set xs. count_list xs k = maior_contagem xs"
proof -
  from assms obtain x where x: "x \<in> set xs" by (cases xs) auto
  then have pos: "0 < count_list xs x" by (rule count_list_pos)
  have "0 < maior_contagem xs"
    using pos maior_contagem_ge [of xs x] by linarith
  with fold_max_attained [of "map (count_list xs) xs" 0]
  have "maior_contagem xs \<in> set (map (count_list xs) xs)"
    by (simp add: maior_contagem_def)
  then show ?thesis by auto
qed

lemma set_mode:
  "set (mode xs) = {k \<in> set xs. count_list xs k = maior_contagem xs}"
  by (auto simp: mode_def)

lemma mode_not_Nil: "xs \<noteq> [] \<Longrightarrow> mode xs \<noteq> []"
  using maior_contagem_attained [of xs] set_mode [of xs]
  by (metis (mono_tags, lifting) empty_iff mem_Collect_eq set_empty)

lemma sorted_mode: "sorted (mode xs)"
  by (simp add: mode_def)

lemma primeiro_mode:
  assumes "xs \<noteq> []"
  obtains s where "primeiro (mode xs) = Inr s" "s \<in> set xs"
    "count_list xs s = maior_contagem xs"
    "\<And>k. k \<in> set xs \<Longrightarrow> count_list xs k = maior_contagem xs \<Longrightarrow> s \<le> k"
proof -
  from mode_not_Nil [OF assms] obtain s ms where ms: "mode xs = s # ms"
    by (cases "mode xs") auto
  have mem: "s \<in> set (mode xs)" by (simp add: ms)
  have least: "s \<le> k" if "k \<in> set (mode xs)" for k
    using sorted_mode [of xs] that by (auto simp: ms)
  show ?thesis
  proof
    show "primeiro (mode xs) = Inr s" by (simp add: primeiro_def ms)
    show "s \<in> set xs" using mem by (simp add: set_mode)
    show "count_list xs s = maior_contagem xs" using mem by (simp add: set_mode)
    show "s \<le> k" if "k \<in> set xs" "count_list xs k = maior_contagem xs" for k
      using that least by (simp add: set_mode)
  qed
qed

text \<open>
  C5, as the code has it. The metric is \<^verbatim>\<open>mode()[0]\<close> of the sector column of the subset.
  On a subset that has rows it is a sector of the subset that no sector outnumbers, and
  among the sectors with that same largest count it is the least one in the order of the
  values of the column, whatever their order in the rows: pandas sorts the modes. The
  first part states this for the frames of the model, whose sectors are text; the second
  part states it of \<^verbatim>\<open>mode()[0]\<close> for a column of any linearly ordered type, as the numbers
  of a sector column that pandas read as numbers.
\<close>

theorem C5_modal_sector_least_on_ties:
  fixes dff :: "'a chamado_scheme list" and col :: "'k::linorder list"
  assumes "dff \<noteq> []" and "col \<noteq> []"
  shows "(\<exists>k. metricas dff = Inr k \<and>
            primeiro (mode (map setor dff)) = Inr (setor_top k) \<and>
            setor_top k \<in> set (map setor dff) \<and>
            (\<forall>s. count_list (map setor dff) s \<le> count_list (map setor dff) (setor_top k)) \<and>
            (\<forall>s. count_list (map setor dff) s = count_list (map setor dff) (setor_top k)
                 \<longrightarrow> setor_top k \<le> s)) \<and>
         (\<exists>v. primeiro (mode col) = Inr v \<and>
            v \<in> set col \<and>
            (\<forall>x. count_list col x \<le> count_list col v) \<and>
            (\<forall>x. count_list col x = count_list col v \<longrightarrow> v \<le> x))"
proof -
  have geral: "\<exists>v. primeiro (mode xs) = Inr v \<and> v \<in> set xs \<and>
      (\<forall>x. count_list xs x \<le> count_list xs v) \<and>
      (\<forall>x. count_list xs x = count_list xs v \<longrightarrow> v \<le> x)"
    if ne: "xs \<noteq> []" for xs :: "'b::linorder list"
  proof -
    from primeiro_mode [OF ne] obtain s where s:
      "primeiro (mode xs) = Inr s" "s \<in> set xs" "count_list xs s = maior_contagem xs"
      "\<And>k. k \<in> set xs \<Longrightarrow> count_list xs k = maior_contagem xs \<Longrightarrow> s \<le> k"
      by blast
    have pos: "0 < count_list xs s" using s(2) by (rule count_list_pos)
    have tie: "s \<le> k" if "count_list xs k = count_list xs s" for k
    proof -
      from that pos have "0 < count_list xs k" by simp
      then have "k \<in> set xs" by (rule count_list_pos_mem)
      with that s(3,4) show ?thesis by simp
    qed
    show ?thesis
      using s(1,2) tie maior_contagem_ge [of xs] s(3) by auto
  qed
  from assms(1) have "map setor dff \<noteq> []" by simp
  from geral [OF this] obtain v where v: "primeiro (mode (map setor dff)) = Inr v"
    "v \<in> set (map setor dff)"
    "\<forall>x. count_list (map setor dff) x \<le> count_list (map setor dff) v"
    "\<forall>x. count_list (map setor dff) x = count_list (map setor dff) v \<longrightarrow> v \<le> x"
    by blast
  have "metricas dff =
      Inr \<lparr>tempo_medio = mean_int (map tempo_resolucao dff),
           taxa_resolucao = mean_bool (map (\<lambda>r. status r = ''Resolvido'') dff) * 100,
           total_chamados = length dff, setor_top = v\<rparr>"
    using assms(1) v(1) by (simp add: metricas_def)
  with v have "\<exists>k. metricas dff = Inr k \<and>
            primeiro (mode (map setor dff)) = Inr (setor_top k) \<and>
            setor_top k \<in> set (map setor dff) \<and>
            (\<forall>s. count_list (map setor dff) s \<le> count_list (map setor dff) (setor_top k)) \<and>
            (\<forall>s. count_list (map setor dff) s = count_list (map setor dff) (setor_top k)
                 \<longrightarrow> setor_top k \<le> s)"
    by simp
  with geral [OF assms(2)] show ?thesis by blast
qed

theorem C5_modal_sector_least_on_ties_witness:
  "tabela_empate \<noteq> [] \<and> [10, 9 :: int] \<noteq> [] \<and>
   (\<exists>k. metricas tabela_empate = Inr k \<and>
        primeiro (mode (map setor tabela_empate)) = Inr (setor_top k) \<and>
        setor_top k \<in> set (map setor tabela_empate) \<and>
        (\<forall>s. count_list (map setor tabela_empate) s
               \<le> count_list (map setor tabela_empate) (setor_top k)) \<and>
        (\<forall>s. count_list (map setor tabela_empate) s
               = count_list (map setor tabela_empate) (setor_top k)
             \<longrightarrow> setor_top k \<le> s)) \<and>
   (\<exists>v. primeiro (mode [10, 9 :: int]) = Inr v \<and>
        v \<in> set [10, 9 :: int] \<and>
        (\<forall>x. count_list [10, 9 :: int] x \<le> count_list [10, 9 :: int] v) \<and>
        (\<forall>x. count_list [10, 9 :: int] x = count_list [10, 9 :: int] v \<longrightarrow> v \<le> x))"
proof -
  have h: "tabela_empate \<noteq> []" by (simp add: tabela_empate_def)
  have g: "[10, 9 :: int] \<noteq> []" by simp
  show ?thesis
    using h g C5_modal_sector_least_on_ties [OF h g] by blast
qed

text \<open>The order is that of the values: 9 comes before 10 as numbers, and after it as
  text.\<close>

lemma moda_de_numeros_e_de_texto:
  "primeiro (mode [10, 9 :: int]) = Inr 9 \<and> primeiro (mode [''10'', ''9'']) = Inr ''10''"
  by code_simp

text \<open>The claim as stated fails: of two sectors with one ticket each the metric is
  \<^verbatim>\<open>RH\<close>, and the first in the rows is \<^verbatim>\<open>TI\<close>.\<close>

theorem C5_first_in_rows_counterexample:
  "map_sum id setor_top (metricas tabela_empate) = Inr ''RH'' \<and>
   map setor tabela_empate = [''TI'', ''RH''] \<and>
   count_list (map setor tabela_empate) ''TI'' = count_list (map setor tabela_empate) ''RH''"
  by code_simp

lemma mean_bool_bounds:
  assumes "bs \<noteq> []"
  shows "0 \<le> mean_bool bs" and "mean_bool bs \<le> 1"
proof -
  have len: "0 < length bs" using assms by simp
  show "0 \<le> mean_bool bs" by (simp add: mean_bool_def)
  have "length (filter (\<lambda>b. b) bs) \<le> length bs" by (rule length_filter_le)
  then have "rat_of_nat (length (filter (\<lambda>b. b) bs)) \<le> rat_of_nat (length bs)"
    by (simp only: of_nat_le_iff)
  then show "mean_bool bs \<le> 1"
    using len by (simp add: mean_bool_def divide_le_eq_1)
qed

text \<open>
  C6, as the code has it. On a subset that has rows the resolution rate is 100 times the
  number of rows whose status is \<^verbatim>\<open>Resolvido\<close>, divided by the number of rows; it lies
  between 0 and 100, and rate times total divided by 100, rounded, is that number of rows.
\<close>

theorem C6_resolution_rate:
  assumes "dff \<noteq> []"
  shows "\<exists>k. metricas dff = Inr k \<and>
           taxa_resolucao k =
             100 * rat_of_nat (length (filter (\<lambda>r. status r = ''Resolvido'') dff))
               / rat_of_nat (length dff) \<and>
           0 \<le> taxa_resolucao k \<and> taxa_resolucao k \<le> 100 \<and>
           round (taxa_resolucao k * rat_of_nat (total_chamados k) / 100) =
             int (length (filter (\<lambda>r. status r = ''Resolvido'') dff))"
proof -
  let ?bs = "map (\<lambda>r. status r = ''Resolvido'') dff"
  let ?n = "length (filter (\<lambda>r. status r = ''Resolvido'') dff)"
  from assms have ne: "map setor dff \<noteq> []" and bne: "?bs \<noteq> []" by simp_all
  from primeiro_mode [OF ne] obtain s where s: "primeiro (mode (map setor dff)) = Inr s"
    by blast
  define k where "k = \<lparr>tempo_medio = mean_int (map tempo_resolucao dff),
      taxa_resolucao = mean_bool ?bs * 100, total_chamados = length dff, setor_top = s\<rparr>"
  have m: "metricas dff = Inr k"
    using assms s by (simp add: metricas_def k_def)
  have len: "rat_of_nat (length dff) \<noteq> 0" using assms by simp
  have rate: "taxa_resolucao k = 100 * rat_of_nat ?n / rat_of_nat (length dff)"
    by (simp add: k_def mean_bool_def filter_map comp_def)
  have lo: "0 \<le> taxa_resolucao k"
    using mean_bool_bounds(1) [OF bne] by (simp add: k_def)
  have hi: "taxa_resolucao k \<le> 100"
    using mean_bool_bounds(2) [OF bne] by (simp add: k_def)
  have tot: "total_chamados k = length dff"
    by (simp add: k_def)
  have "taxa_resolucao k * rat_of_nat (total_chamados k) / 100 = rat_of_nat ?n"
    using len by (simp add: rate tot)
  then have rnd: "round (taxa_resolucao k * rat_of_nat (total_chamados k) / 100) = int ?n"
    by simp
  from m rate lo hi rnd show ?thesis by blast
qed

theorem C6_resolution_rate_witness:
  "linhas tabela_cenario \<noteq> [] \<and>
   (\<exists>k. metricas (linhas tabela_cenario) = Inr k \<and>
        taxa_resolucao k =
          100 * rat_of_nat (length (filter (\<lambda>r. status r = ''Resolvido'') (linhas tabela_cenario)))
            / rat_of_nat (length (linhas tabela_cenario)) \<and>
        0 \<le> taxa_resolucao k \<and> taxa_resolucao k \<le> 100 \<and>
        round (taxa_resolucao k * rat_of_nat (total_chamados k) / 100) =
          int (length (filter (\<lambda>r. status r = ''Resolvido'') (linhas tabela_cenario))))"
proof -
  have h: "linhas tabela_cenario \<noteq> []" by (simp add: tabela_cenario_def)
  show ?thesis
    using h C6_resolution_rate [OF h] by simp
qed

text \<open>The claim as stated fails: two of the three rows of the table of the specification
  have the status \<^verbatim>\<open>Resolved\<close>, and the rate of the code is 0.\<close>

theorem C6_resolved_label_counterexample:
  "map_sum id taxa_resolucao (metricas (linhas tabela_spec)) = Inr 0 \<and>
   100 * rat_of_nat (length (filter (\<lambda>r. status r = ''Resolved'') (linhas tabela_spec)))
     / rat_of_nat (length (linhas tabela_spec)) = 200 / 3"
  by code_simp

section \<open>Aggregations: properties\<close>







section \<open>Writing and reading numbers\<close>

















section \<open>Writing and reading timestamps\<close>






















section \<open>Loading: properties\<close>














section \<open>Export and reload\<close>






























section \<open>The rendering pass: properties\<close>


















text \<open>
  Why the labels must be plainly text: in a table with the sectors \<^verbatim>\<open>007\<close> and \<^verbatim>\<open>TI\<close> the
  column is text, and the rows of the sector \<^verbatim>\<open>007\<close> are exported with the cell \<^verbatim>\<open>007\<close>. In
  the export every cell of the column reads as a number, so pandas loads it as a column
  of the number 7, which is not the text of the subset; the frames of the model do not
  hold such a column, and the loading is outside the model.
\<close>

lemma exportacao_007_fora_do_modelo:
  "(case carregar arquivo_007 of
      Inl e \<Rightarrow> False
    | Inr df \<Rightarrow>
        map setor (linhas df) = [''007'', ''TI''] \<and>
        (case painel [dia 2024 1 1, dia 2024 12 31] [''007''] [''Aberto''] df of
           Inl e \<Rightarrow> False
         | Inr out \<Rightarrow>
             (case download out of
                None \<Rightarrow> False
              | Some csv \<Rightarrow>
                  csv = [[''ID'', ''setor'', ''data'', ''status'', ''tempo_resolucao'', ''mes''],
                         [''1'', ''007'', ''2024-01-05'', ''Aberto'', ''10'', ''2024-01'']] \<and>
                  carregar csv = Inl NaoModelado)))"
  by code_simp

section \<open>The scenario of the specification\<close>

text \<open>
  C2, as the code has it. With the status of the resolved tickets written \<^verbatim>\<open>Resolvido\<close>,
  the selection of the sector \<^verbatim>\<open>TI\<close>, every status and the whole of 2024 keeps the tickets
  1 and 2; the mean time is 7.5, the rate 50, the total 2, the sector \<^verbatim>\<open>TI\<close>, and each of
  the months 2024-01 and 2024-02 has one ticket.
\<close>

theorem C2_scenario:
  "df_filtrado [dia 2024 1 1, dia 2024 12 31] [''TI''] (status_opcoes (linhas tabela_cenario))
     (linhas tabela_cenario)
   = Inr [novo_chamado 1 ''TI'' (to_datetime (dia 2024 1 5)) ''Resolvido'' 10,
          novo_chamado 2 ''TI'' (to_datetime (dia 2024 2 10)) ''Open'' 5] \<and>
   map_sum id metricas_gerais
     (painel [dia 2024 1 1, dia 2024 12 31] [''TI''] (status_opcoes (linhas tabela_cenario)) tabela_cenario)
   = Inr \<lparr>tempo_medio = 15 / 2, taxa_resolucao = 50, total_chamados = 2, setor_top = ''TI''\<rparr> \<and>
   map_sum id graf4
     (painel [dia 2024 1 1, dia 2024 12 31] [''TI''] (status_opcoes (linhas tabela_cenario)) tabela_cenario)
   = Inr (Some [(''2024-01'', 1), (''2024-02'', 1)])"
  by code_simp

text \<open>The claim as stated fails: with the status written \<^verbatim>\<open>Resolved\<close> the rate is 0.\<close>

theorem C2_resolved_label_counterexample: 
  "map_sum id metricas_gerais
     (painel [dia 2024 1 1, dia 2024 12 31] [''TI''] (status_opcoes (linhas tabela_spec)) tabela_spec)
   = Inr \<lparr>tempo_medio = 15 / 2, taxa_resolucao = 0, total_chamados = 2, setor_top = ''TI''\<rparr>"
  by code_simp

end
